theory Spec2Isabelle
  imports Main
begin

section \<open>Python values used by the AutoLoader reader\<close>

text \<open>
  The development embeds \<^verbatim>\<open>koheesio/spark/readers/databricks/autoloader.py\<close>.
  A \<^verbatim>\<open>str\<close> that the caller supplies as a format is a sequence of Unicode code
  points. The strings written in the source (format names and values, option
  keys, attribute names) are ASCII and are written as HOL strings;
  \<open>codepoints\<close> gives their code points.
\<close>

type_synonym pystr = "nat list"

definition codepoints :: "string \<Rightarrow> pystr" where
  "codepoints s = map of_char s"

text \<open>
  \<^verbatim>\<open>str.upper()\<close> replaces each code point on its own. An ASCII code point from
  \<^verbatim>\<open>a\<close> to \<^verbatim>\<open>z\<close> becomes the one from \<^verbatim>\<open>A\<close> to \<^verbatim>\<open>Z\<close>, and every other ASCII
  code point is kept. What replaces a code point from 128 on is given by the
  Unicode tables of the interpreter, the parameter \<open>unicode_upper\<close>: one code
  point or several (U+017F gives \<^verbatim>\<open>S\<close>, U+0131 gives \<^verbatim>\<open>I\<close>, U+FB01 gives
  \<^verbatim>\<open>FI\<close>).
\<close>

definition upper_ascii :: "nat \<Rightarrow> nat" where
  "upper_ascii c = (if 97 \<le> c \<and> c \<le> 122 then c - 32 else c)"

definition upper :: "(nat \<Rightarrow> pystr) \<Rightarrow> pystr \<Rightarrow> pystr" where
  "upper unicode_upper s =
     concat (map (\<lambda>c. if c < 128 then [upper_ascii c] else unicode_upper c) s)"

text \<open>
  The errors of \<^verbatim>\<open>stat\<close> that \<^verbatim>\<open>Path.exists\<close> does not turn into
  \<^verbatim>\<open>False\<close>: a name longer than the filesystem allows, a directory that may not
  be searched.
\<close>

datatype oserror = ENAMETOOLONG | EACCES

text \<open>
  The exceptions that the modelled code can raise, each with its message or subject.
  \<open>AttributeErrorName\<close> is the \<^verbatim>\<open>AttributeError\<close> of \<^verbatim>\<open>getattr\<close> with the name
  that was looked up; \<open>ValidationError\<close> is pydantic's, around the exception of a
  field validator.
\<close>

datatype error =
    AttributeError string
  | AttributeErrorName pystr
  | FileNotFoundError string
  | IsADirectoryError string
  | OSError oserror
  | JSONDecodeError string
  | SchemaFromJsonError
  | ValidationError error

section \<open>\<^verbatim>\<open>AutoLoaderFormat\<close>\<close>

datatype AutoLoaderFormat = JSON | CSV | PARQUET | AVRO | ORC | TEXT | BINARYFILE

text \<open>The member's \<^verbatim>\<open>.value\<close>.\<close>

fun format_value :: "AutoLoaderFormat \<Rightarrow> string" where
  "format_value JSON = ''json''"
| "format_value CSV = ''csv''"
| "format_value PARQUET = ''parquet''"
| "format_value AVRO = ''avro''"
| "format_value ORC = ''orc''"
| "format_value TEXT = ''text''"
| "format_value BINARYFILE = ''binaryfile''"

text \<open>The member's \<^verbatim>\<open>.name\<close>, the attribute under which the class holds it.\<close>

fun format_name :: "AutoLoaderFormat \<Rightarrow> string" where
  "format_name JSON = ''JSON''"
| "format_name CSV = ''CSV''"
| "format_name PARQUET = ''PARQUET''"
| "format_name AVRO = ''AVRO''"
| "format_name ORC = ''ORC''"
| "format_name TEXT = ''TEXT''"
| "format_name BINARYFILE = ''BINARYFILE''"

text \<open>Iterating over the enumeration yields the members in declaration order.\<close>

definition members :: "AutoLoaderFormat list" where
  "members = [JSON, CSV, PARQUET, AVRO, ORC, TEXT, BINARYFILE]"

text \<open>
  \<^verbatim>\<open>getattr(AutoLoaderFormat, name)\<close>, looked up among the member names;
  \<open>None\<close> stands for the \<^verbatim>\<open>AttributeError\<close> of a missing attribute.
\<close>

definition getattr_AutoLoaderFormat :: "pystr \<Rightarrow> AutoLoaderFormat option" where
  "getattr_AutoLoaderFormat name =
     map_of (map (\<lambda>f. (codepoints (format_name f), f)) members) name"

section \<open>The \<^verbatim>\<open>format\<close> field validator\<close>

text \<open>The field is declared \<^verbatim>\<open>Union[str, AutoLoaderFormat]\<close>.\<close>

datatype format_input = FStr pystr | FEnum AutoLoaderFormat

text \<open>
  \<^verbatim>\<open>str(format_specified.value)\<close>: a member has the attribute, a \<^verbatim>\<open>str\<close>
  object has no attribute \<^verbatim>\<open>value\<close>.
\<close>

fun str_of_value :: "format_input \<Rightarrow> error + string" where
  "str_of_value (FEnum f) = Inr (format_value f)"
| "str_of_value (FStr s) = Inl (AttributeError ''value'')"

text \<open>
  \<^verbatim>\<open>format_specified.upper() in [f.value.upper() for f in AutoLoaderFormat]\<close>
\<close>

definition is_known_format :: "(nat \<Rightarrow> pystr) \<Rightarrow> pystr \<Rightarrow> bool" where
  "is_known_format unicode_upper s =
     (upper unicode_upper s
        \<in> set (map (\<lambda>f. upper unicode_upper (codepoints (format_value f))) members))"

text \<open>
  \<^verbatim>\<open>
  def validate_format(cls, format_specified):
      if isinstance(format_specified, str):
          if format_specified.upper() in [f.value.upper() for f in AutoLoaderFormat]:
              format_specified = getattr(AutoLoaderFormat, format_specified.upper())
      return str(format_specified.value)
  \<close>
\<close>

fun validate_format :: "(nat \<Rightarrow> pystr) \<Rightarrow> format_input \<Rightarrow> error + string" where
  "validate_format unicode_upper (FStr s) =
     (if is_known_format unicode_upper s then
        (case getattr_AutoLoaderFormat (upper unicode_upper s) of
           None \<Rightarrow> Inl (AttributeErrorName (upper unicode_upper s))
         | Some f \<Rightarrow> str_of_value (FEnum f))
      else str_of_value (FStr s))"
| "validate_format unicode_upper (FEnum f) = str_of_value (FEnum f)"

text \<open>
  The spec's words for the strings that the validator is to accept: a format name
  in any letter-case. Each character of \<open>s\<close> is the letter of the lower-case
  name \<open>n\<close> at that place or its capital, 32 code points below.
\<close>

definition letter_case_variant :: "pystr \<Rightarrow> string \<Rightarrow> bool" where
  "letter_case_variant s n =
     list_all2 (\<lambda>c d. c = of_char d \<or> c + 32 = of_char d) s n"

section \<open>The \<^verbatim>\<open>schema\<close> field validator\<close>

text \<open>
  The field is declared \<^verbatim>\<open>Optional[Union[Path, str, StructType]]\<close>. The type
  \<open>'s\<close> stands for pyspark's \<^verbatim>\<open>StructType\<close>; a \<^verbatim>\<open>Path\<close> is given by its string.
\<close>

datatype 's schema_input = SPath string | SStr string | SStruct 's

text \<open>
  The filesystem, as far as \<^verbatim>\<open>Path.exists\<close> and \<^verbatim>\<open>Path.read_text\<close> observe it.
  \<open>None\<close> at a path: \<^verbatim>\<open>stat\<close> reports that nothing is there, and
  \<^verbatim>\<open>exists()\<close> is \<^verbatim>\<open>False\<close>. \<open>StatFails\<close>: \<^verbatim>\<open>stat\<close> fails with another error,
  which \<^verbatim>\<open>exists()\<close> raises; under a name that is too long nothing exists
  either. \<open>File\<close> and \<open>Directory\<close>: \<^verbatim>\<open>exists()\<close> is \<^verbatim>\<open>True\<close>.
\<close>

datatype fsnode = File string | Directory | StatFails oserror

type_synonym filesystem = "string \<rightharpoonup> fsnode"

text \<open>The filesystem operations performed, in order.\<close>

datatype fs_access = Exists string | ReadText string

text \<open>
  The branch \<^verbatim>\<open>schema is not None\<close> of the validator. The functions
  \<open>json_loads\<close> and \<open>fromJson\<close> stand for \<^verbatim>\<open>json.loads\<close> and
  \<^verbatim>\<open>StructType.fromJson\<close>, which belong to libraries; \<open>None\<close> is their raising.
  \<^verbatim>\<open>
  schema_path = Path(schema)
  if schema_path.exists():
      schema = schema_path.read_text()
  else:
      raise FileNotFoundError(f"Schema file not found at path {schema}")
  schema = StructType.fromJson(json.loads(schema))
  \<close>
\<close>

definition schema_from_path ::
  "(string \<Rightarrow> 'j option) \<Rightarrow> ('j \<Rightarrow> 's option) \<Rightarrow> filesystem \<Rightarrow> string
     \<Rightarrow> fs_access list \<times> (error + 's option)" where
  "schema_from_path json_loads fromJson fs p =
     (case fs p of
        None \<Rightarrow>
          ([Exists p], Inl (FileNotFoundError (''Schema file not found at path '' @ p)))
      | Some (StatFails e) \<Rightarrow> ([Exists p], Inl (OSError e))
      | Some Directory \<Rightarrow> ([Exists p, ReadText p], Inl (IsADirectoryError p))
      | Some (File txt) \<Rightarrow>
          ([Exists p, ReadText p],
           (case json_loads txt of
              None \<Rightarrow> Inl (JSONDecodeError txt)
            | Some j \<Rightarrow>
                (case fromJson j of
                   None \<Rightarrow> Inl SchemaFromJsonError
                 | Some st \<Rightarrow> Inr (Some st)))))"

text \<open>
  \<^verbatim>\<open>
  def validate_schema(cls, schema_specified):
      schema = schema_specified
      if isinstance(schema, StructType):
          return schema
      if schema is not None:
          ...
      return schema
  \<close>
\<close>

fun validate_schema ::
  "(string \<Rightarrow> 'j option) \<Rightarrow> ('j \<Rightarrow> 's option) \<Rightarrow> filesystem \<Rightarrow> 's schema_input option
     \<Rightarrow> fs_access list \<times> (error + 's option)" where
  "validate_schema json_loads fromJson fs (Some (SStruct st)) = ([], Inr (Some st))"
| "validate_schema json_loads fromJson fs (Some (SPath p)) =
     schema_from_path json_loads fromJson fs p"
| "validate_schema json_loads fromJson fs (Some (SStr p)) =
     schema_from_path json_loads fromJson fs p"
| "validate_schema json_loads fromJson fs None = ([], Inr None)"

section \<open>The \<^verbatim>\<open>AutoLoader\<close> instance\<close>

text \<open>
  The calls made on the engine's stream reader, in order:
  \<^verbatim>\<open>readStream.format(..)\<close>, \<^verbatim>\<open>.schema(..)\<close>, \<^verbatim>\<open>.options(**..)\<close>, \<^verbatim>\<open>.load(..)\<close>.
\<close>

datatype 's engine_call =
    ReadStreamFormat string
  | ReaderSchema 's
  | ReaderOptions "string \<rightharpoonup> string"
  | ReaderLoad string

text \<open>
  The fields of an instance after validation. \<open>options\<close> is
  \<^verbatim>\<open>Optional[Dict[str, str]]\<close>, so it is a dictionary or \<^verbatim>\<open>None\<close>.
  \<open>output_df\<close> is \<^verbatim>\<open>self.output.df\<close>: the lazy handle that \<^verbatim>\<open>load\<close> returns,
  identified by the request that produced it.
\<close>

record 's AutoLoader =
  format :: string
  location :: string
  schema_location :: string
  options :: "(string \<rightharpoonup> string) option"
  schema :: "'s option"
  output_df :: "'s engine_call list option"

text \<open>A keyword argument of the constructor is left out or given.\<close>

datatype 'a arg = Omitted | Given 'a

record 's AutoLoader_args =
  format_arg :: format_input
  location_arg :: string
  schemaLocation_arg :: string
  options_arg :: "(string \<rightharpoonup> string) option arg"
  schema_arg :: "'s schema_input option arg"

text \<open>
  An exception of a field validator that is a \<^verbatim>\<open>ValueError\<close> reaches the caller
  inside pydantic's \<^verbatim>\<open>ValidationError\<close>; \<^verbatim>\<open>json.JSONDecodeError\<close> is one. The
  other exceptions reach the caller as they are.
\<close>

fun raised_by_validator :: "error \<Rightarrow> error" where
  "raised_by_validator (JSONDecodeError t) = ValidationError (JSONDecodeError t)"
| "raised_by_validator e = e"

text \<open>
  Construction runs the field validators in the order of the field declarations
  (\<open>format\<close> before \<open>schema\<close>); an exception of a validator ends it. A field that is
  left out takes its default without validation: \<^verbatim>\<open>default_factory=dict\<close> for
  \<open>options\<close>, \<^verbatim>\<open>None\<close> for \<open>schema\<close>.
\<close>

definition AutoLoader_init ::
  "(nat \<Rightarrow> pystr) \<Rightarrow> (string \<Rightarrow> 'j option) \<Rightarrow> ('j \<Rightarrow> 's option) \<Rightarrow> filesystem
     \<Rightarrow> 's AutoLoader_args \<Rightarrow> fs_access list \<times> (error + 's AutoLoader)" where
  "AutoLoader_init unicode_upper json_loads fromJson fs args =
     (case validate_format unicode_upper (format_arg args) of
        Inl e \<Rightarrow> ([], Inl (raised_by_validator e))
      | Inr f \<Rightarrow>
          (let opts = (case options_arg args of Omitted \<Rightarrow> Some Map.empty | Given d \<Rightarrow> d);
               (log, r) = (case schema_arg args of
                             Omitted \<Rightarrow> ([], Inr None)
                           | Given s \<Rightarrow> validate_schema json_loads fromJson fs s)
           in (case r of
                 Inl e \<Rightarrow> (log, Inl (raised_by_validator e))
               | Inr st \<Rightarrow>
                   (log, Inr \<lparr>format = f, location = location_arg args,
                              schema_location = schemaLocation_arg args,
                              options = opts, schema = st, output_df = None\<rparr>))))"

section \<open>Merging the options\<close>

text \<open>
  \<^verbatim>\<open>
  def get_options(self):
      self.options.update(
          {
              "cloudFiles.format": self.format,
              "cloudFiles.schemaLocation": self.schema_location,
          }
      )
      return self.options
  \<close>
  The result is the returned dictionary together with the instance after the
  update. \<^verbatim>\<open>None\<close> has no attribute \<^verbatim>\<open>update\<close>.
\<close>

definition get_options :: "'s AutoLoader \<Rightarrow> error + ((string \<rightharpoonup> string) \<times> 's AutoLoader)" where
  "get_options self =
     (case options self of
        None \<Rightarrow> Inl (AttributeError ''update'')
      | Some d \<Rightarrow>
          (let d' = d ++ [''cloudFiles.format'' \<mapsto> format self,
                          ''cloudFiles.schemaLocation'' \<mapsto> schema_location self]
           in Inr (d', self\<lparr>options := Some d'\<rparr>)))"

section \<open>Building the request and executing it\<close>

text \<open>
  \<^verbatim>\<open>
  def reader(self) -> DataStreamReader:
      reader = self.spark.readStream.format("cloudFiles")
      if self.schema is not None:
          reader = reader.schema(self.schema)
      reader = reader.options(**self.get_options())
      return reader
  \<close>
  The result is the calls made on the engine and the instance afterwards, or the
  exception that ended the method.
\<close>

definition reader :: "'s AutoLoader \<Rightarrow> 's engine_call list \<times> (error + 's AutoLoader)" where
  "reader self =
     (let calls = [ReadStreamFormat ''cloudFiles''];
          calls = (case schema self of
                     None \<Rightarrow> calls
                   | Some st \<Rightarrow> calls @ [ReaderSchema st])
      in (case get_options self of
            Inl e \<Rightarrow> (calls, Inl e)
          | Inr (opts, self') \<Rightarrow> (calls @ [ReaderOptions opts], Inr self')))"

text \<open>
  \<^verbatim>\<open>
  def execute(self):
      self.output.df = self.reader().load(self.location)
  \<close>
\<close>

definition execute :: "'s AutoLoader \<Rightarrow> 's engine_call list \<times> (error + 's AutoLoader)" where
  "execute self =
     (case reader self of
        (calls, Inl e) \<Rightarrow> (calls, Inl e)
      | (calls, Inr self') \<Rightarrow>
          (let calls = calls @ [ReaderLoad (location self')]
           in (calls, Inr (self'\<lparr>output_df := Some calls\<rparr>))))"

section \<open>Properties of the format validator\<close>

lemma upper_format_value:
  "upper u (codepoints (format_value f)) = codepoints (format_name f)"
  by (cases f) (simp_all add: codepoints_def upper_def upper_ascii_def)

lemma getattr_format_name:
  "getattr_AutoLoaderFormat (codepoints (format_name f)) = Some f"
  by (cases f) (simp_all add: getattr_AutoLoaderFormat_def members_def codepoints_def)

lemma set_members: "set members = UNIV"
proof -
  have "f \<in> set members" for f by (cases f) (simp_all add: members_def)
  then show ?thesis by blast
qed

lemma is_known_format_iff:
  "is_known_format u s \<longleftrightarrow> (\<exists>f. upper u s = codepoints (format_name f))"
  unfolding is_known_format_def set_map set_members upper_format_value
  by blast

lemma upper_delta: "upper u (codepoints ''delta'') = codepoints ''DELTA''"
  by (simp add: codepoints_def upper_def upper_ascii_def)

lemma not_known_delta: "\<not> is_known_format u (codepoints ''delta'')"
  unfolding is_known_format_iff upper_delta
proof
  assume "\<exists>f. codepoints ''DELTA'' = codepoints (format_name f)"
  then obtain f where "codepoints ''DELTA'' = codepoints (format_name f)" ..
  then show False by (cases f) (simp_all add: codepoints_def)
qed

lemma upper_xml: "upper u (codepoints ''xml'') = codepoints ''XML''"
  by (simp add: codepoints_def upper_def upper_ascii_def)

lemma not_known_xml: "\<not> is_known_format u (codepoints ''xml'')"
  unfolding is_known_format_iff upper_xml
proof
  assume "\<exists>f. codepoints ''XML'' = codepoints (format_name f)"
  then obtain f where "codepoints ''XML'' = codepoints (format_name f)" ..
  then show False by (cases f) (simp_all add: codepoints_def)
qed

lemma validate_format_matching:
  assumes "upper u s = upper u (codepoints (format_value f))"
  shows "validate_format u (FStr s) = Inr (format_value f)"
proof -
  have e: "upper u s = codepoints (format_name f)"
    using assms by (simp only: upper_format_value)
  then have "is_known_format u s"
    unfolding is_known_format_iff by blast
  moreover have "getattr_AutoLoaderFormat (upper u s) = Some f"
    by (simp only: e getattr_format_name)
  ultimately show ?thesis by simp
qed

text \<open>
  A string outside ASCII that the comparison in upper case accepts: with the
  Unicode table's entry for U+017F (the long s, code point 383), the string of
  \<^verbatim>\<open>j\<close>, long s, \<^verbatim>\<open>o\<close>, \<^verbatim>\<open>n\<close> is validated to \<^verbatim>\<open>json\<close>.
\<close>

lemma validate_format_long_s:
  assumes "u 383 = [83]"
  shows "validate_format u (FStr [106, 383, 111, 110]) = Inr ''json''"
proof -
  have "upper u [106, 383, 111, 110] = upper u (codepoints (format_value JSON))"
    using assms by (simp add: codepoints_def upper_def upper_ascii_def)
  then have "validate_format u (FStr [106, 383, 111, 110]) = Inr (format_value JSON)"
    by (rule validate_format_matching)
  then show ?thesis by (simp only: format_value.simps)
qed

text \<open>
  Claim C1, as the code has it: a string that the comparison of line 104 does
  not accept, that is, whose upper-case form is the upper-case form of none of
  the seven format values, is not returned. The conversion to a member is
  skipped, and reading \<^verbatim>\<open>.value\<close> of the string raises \<^verbatim>\<open>AttributeError\<close>,
  so validation fails for every such string, whatever the Unicode table is.
\<close>

theorem unknown_format_rejected:
  "\<not> is_known_format u s \<Longrightarrow> validate_format u (FStr s) = Inl (AttributeError ''value'')"
  by simp

text \<open>
  Two instances: an ASCII string, and a string with U+00E9 (code point 233),
  whose upper-case form is U+00C9 (code point 201).
\<close>

theorem unknown_format_rejected_witness:
  "\<not> is_known_format (\<lambda>c. [c]) (codepoints ''delta'') \<and>
   validate_format (\<lambda>c. [c]) (FStr (codepoints ''delta'')) = Inl (AttributeError ''value'') \<and>
   \<not> is_known_format (\<lambda>c. if c = 233 then [201] else [c]) [106, 233] \<and>
   validate_format (\<lambda>c. if c = 233 then [201] else [c]) (FStr [106, 233]) =
     Inl (AttributeError ''value'')"
proof -
  let ?u = "\<lambda>c :: nat. if c = 233 then [201] else [c :: nat]"
  have "upper ?u [106, 233] = [74, 201]"
    by (simp add: upper_def upper_ascii_def)
  then have h: "\<not> is_known_format ?u [106, 233]"
    unfolding is_known_format_iff
  proof -
    assume e: "upper ?u [106, 233] = [74, 201]"
    show "\<not> (\<exists>f. upper ?u [106, 233] = codepoints (format_name f))"
      unfolding e
    proof
      assume "\<exists>f. [74, 201] = codepoints (format_name f)"
      then obtain f where "[74, 201] = codepoints (format_name f)" ..
      then show False by (cases f) (simp_all add: codepoints_def)
    qed
  qed
  show ?thesis
    using unknown_format_rejected [OF not_known_delta [of "\<lambda>c. [c]"]]
      not_known_delta [of "\<lambda>c. [c]"] unknown_format_rejected [OF h] h
    by blast
qed

text \<open>
  The string \<^verbatim>\<open>"xml"\<close> matches no format name; the validator does not return
  it but raises.
\<close>

theorem unknown_format_passthrough_counterexample:
  "\<not> is_known_format (\<lambda>c. [c]) (codepoints ''xml'') \<and>
   validate_format (\<lambda>c. [c]) (FStr (codepoints ''xml'')) = Inl (AttributeError ''value'')"
  using not_known_xml [of "\<lambda>c. [c]"] by simp

lemma letter_case_variant_upper:
  assumes "letter_case_variant s n"
    and "\<forall>d \<in> set n. 97 \<le> (of_char d :: nat) \<and> (of_char d :: nat) \<le> 122"
  shows "upper u s = upper u (codepoints n)"
  using assms unfolding letter_case_variant_def
proof (induction s n rule: list_all2_induct)
  case Nil
  then show ?case by (simp add: codepoints_def)
next
  case (Cons c s d n)
  have t: "upper u s = upper u (codepoints n)" using Cons by simp
  have r: "97 \<le> (of_char d :: nat)" "(of_char d :: nat) \<le> 122"
    using Cons.prems by simp_all
  have h: "(if c < 128 then [upper_ascii c] else u c) = [of_char d - 32]"
    using Cons.hyps(1) r by (auto simp: upper_ascii_def)
  have "upper u (c # s) = [of_char d - 32] @ upper u s"
    using h by (simp add: upper_def)
  moreover have "upper u (codepoints (d # n)) = [of_char d - 32] @ upper u (codepoints n)"
    using r by (simp add: upper_def codepoints_def upper_ascii_def)
  ultimately show ?case using t by simp
qed

lemma format_names_cases:
  assumes "n \<in> {''json'', ''csv'', ''parquet'', ''avro'', ''orc'', ''text'', ''binaryfile''}"
  shows "(\<exists>f. format_value f = n) \<and>
         (\<forall>d \<in> set n. 97 \<le> (of_char d :: nat) \<and> (of_char d :: nat) \<le> 122)"
proof -
  have "format_value JSON = ''json''" "format_value CSV = ''csv''"
    "format_value PARQUET = ''parquet''" "format_value AVRO = ''avro''"
    "format_value ORC = ''orc''" "format_value TEXT = ''text''"
    "format_value BINARYFILE = ''binaryfile''"
    by simp_all
  then have "\<exists>f. format_value f = n"
    using assms by blast
  moreover have "\<forall>d \<in> set n. 97 \<le> (of_char d :: nat) \<and> (of_char d :: nat) \<le> 122"
    using assms by auto
  ultimately show ?thesis by blast
qed

lemma validate_format_by_name:
  assumes "n \<in> {''json'', ''csv'', ''parquet'', ''avro'', ''orc'', ''text'', ''binaryfile''}"
    and "upper u s = upper u (codepoints n)"
  shows "validate_format u (FStr s) = Inr n"
proof -
  obtain f where f: "format_value f = n"
    using format_names_cases [OF assms(1)] by blast
  have "upper u s = upper u (codepoints (format_value f))"
    using assms(2) by (simp only: f)
  then have "validate_format u (FStr s) = Inr (format_value f)"
    by (rule validate_format_matching)
  then show ?thesis by (simp only: f)
qed

text \<open>
  Claim C2: each of the seven members is validated to its lower-case name, and
  a string that matches one of the seven lower-case names in any letter-case
  is validated to exactly that lower-case name, whatever its case. The same holds
  of every string that the code's own comparison in upper case accepts for the
  name.
\<close>

theorem validate_format_canonical:
  "(n \<in> {''json'', ''csv'', ''parquet'', ''avro'', ''orc'', ''text'', ''binaryfile''} \<and>
      letter_case_variant s n \<longrightarrow> validate_format u (FStr s) = Inr n) \<and>
   (n \<in> {''json'', ''csv'', ''parquet'', ''avro'', ''orc'', ''text'', ''binaryfile''} \<and>
      upper u s = upper u (codepoints n) \<longrightarrow> validate_format u (FStr s) = Inr n) \<and>
   map (validate_format u)
     [FEnum JSON, FEnum CSV, FEnum PARQUET, FEnum AVRO, FEnum ORC, FEnum TEXT,
      FEnum BINARYFILE] =
     [Inr ''json'', Inr ''csv'', Inr ''parquet'', Inr ''avro'', Inr ''orc'', Inr ''text'',
      Inr ''binaryfile'']"
proof (intro conjI impI)
  assume a: "n \<in> {''json'', ''csv'', ''parquet'', ''avro'', ''orc'', ''text'', ''binaryfile''} \<and>
      letter_case_variant s n"
  then have "upper u s = upper u (codepoints n)"
    using letter_case_variant_upper format_names_cases by blast
  with a show "validate_format u (FStr s) = Inr n"
    using validate_format_by_name by blast
next
  assume "n \<in> {''json'', ''csv'', ''parquet'', ''avro'', ''orc'', ''text'', ''binaryfile''} \<and>
      upper u s = upper u (codepoints n)"
  then show "validate_format u (FStr s) = Inr n"
    using validate_format_by_name by blast
next
  show "map (validate_format u)
     [FEnum JSON, FEnum CSV, FEnum PARQUET, FEnum AVRO, FEnum ORC, FEnum TEXT,
      FEnum BINARYFILE] =
     [Inr ''json'', Inr ''csv'', Inr ''parquet'', Inr ''avro'', Inr ''orc'', Inr ''text'',
      Inr ''binaryfile'']"
    by simp
qed

lemma letter_case_spellings:
  "letter_case_variant (codepoints ''JSON'') ''json''"
  "letter_case_variant (codepoints ''json'') ''json''"
  "letter_case_variant (codepoints ''Json'') ''json''"
  "letter_case_variant (codepoints ''CSV'') ''csv''"
  "letter_case_variant (codepoints ''BinaryFile'') ''binaryfile''"
  by (simp_all add: letter_case_variant_def codepoints_def)

theorem validate_format_canonical_witness:
  "letter_case_variant (codepoints ''JSON'') ''json'' \<and>
   letter_case_variant (codepoints ''json'') ''json'' \<and>
   letter_case_variant (codepoints ''Json'') ''json'' \<and>
   letter_case_variant (codepoints ''CSV'') ''csv'' \<and>
   letter_case_variant (codepoints ''BinaryFile'') ''binaryfile'' \<and>
   validate_format (\<lambda>c. [c]) (FStr (codepoints ''JSON'')) = Inr ''json'' \<and>
   validate_format (\<lambda>c. [c]) (FStr (codepoints ''json'')) = Inr ''json'' \<and>
   validate_format (\<lambda>c. [c]) (FStr (codepoints ''Json'')) = Inr ''json'' \<and>
   validate_format (\<lambda>c. [c]) (FStr (codepoints ''CSV'')) = Inr ''csv'' \<and>
   validate_format (\<lambda>c. [c]) (FStr (codepoints ''BinaryFile'')) = Inr ''binaryfile'' \<and>
   validate_format (\<lambda>c. [c]) (FEnum JSON) = Inr ''json''"
proof -
  let ?u = "\<lambda>c :: nat. [c]"
  have m1: "''json'' \<in> {''json'', ''csv'', ''parquet'', ''avro'', ''orc'', ''text'', ''binaryfile''}"
    and m2: "''csv'' \<in> {''json'', ''csv'', ''parquet'', ''avro'', ''orc'', ''text'', ''binaryfile''}"
    and m3: "''binaryfile'' \<in> {''json'', ''csv'', ''parquet'', ''avro'', ''orc'', ''text'', ''binaryfile''}"
    by simp_all
  have a: "validate_format ?u (FStr (codepoints ''JSON'')) = Inr ''json''"
    using validate_format_canonical [of "''json''" "codepoints ''JSON''" ?u] m1
      letter_case_spellings(1) by blast
  have b: "validate_format ?u (FStr (codepoints ''json'')) = Inr ''json''"
    using validate_format_canonical [of "''json''" "codepoints ''json''" ?u] m1
      letter_case_spellings(2) by blast
  have c: "validate_format ?u (FStr (codepoints ''Json'')) = Inr ''json''"
    using validate_format_canonical [of "''json''" "codepoints ''Json''" ?u] m1
      letter_case_spellings(3) by blast
  have d: "validate_format ?u (FStr (codepoints ''CSV'')) = Inr ''csv''"
    using validate_format_canonical [of "''csv''" "codepoints ''CSV''" ?u] m2
      letter_case_spellings(4) by blast
  have e: "validate_format ?u (FStr (codepoints ''BinaryFile'')) = Inr ''binaryfile''"
    using validate_format_canonical [of "''binaryfile''" "codepoints ''BinaryFile''" ?u] m3
      letter_case_spellings(5) by blast
  have f: "validate_format ?u (FEnum JSON) = Inr ''json''"
    by simp
  show ?thesis
    using a b c d e f letter_case_spellings by blast
qed

lemma validate_format_CSV: "validate_format u (FStr (codepoints ''CSV'')) = Inr ''csv''"
proof -
  have "upper u (codepoints ''CSV'') = upper u (codepoints (format_value CSV))"
    by (simp add: codepoints_def upper_def upper_ascii_def)
  then have "validate_format u (FStr (codepoints ''CSV'')) = Inr (format_value CSV)"
    by (rule validate_format_matching)
  then show ?thesis by (simp only: format_value.simps)
qed

lemma validate_format_Parquet:
  "validate_format u (FStr (codepoints ''Parquet'')) = Inr ''parquet''"
proof -
  have "upper u (codepoints ''Parquet'') = upper u (codepoints (format_value PARQUET))"
    by (simp add: codepoints_def upper_def upper_ascii_def)
  then have "validate_format u (FStr (codepoints ''Parquet'')) = Inr (format_value PARQUET)"
    by (rule validate_format_matching)
  then show ?thesis by (simp only: format_value.simps)
qed

section \<open>Properties of the schema validator\<close>




text \<open>
  Claim C5: when the schema is a string or a path to an existing file, and the
  text of the file is decoded by \<^verbatim>\<open>json.loads\<close> to a value that
  \<^verbatim>\<open>StructType.fromJson\<close> turns into a schema, the validator returns exactly
  that schema, after checking that the file exists and reading its whole text.
\<close>

theorem schema_file_deserialized:
  "fs p = Some (File txt) \<Longrightarrow> json_loads txt = Some j \<Longrightarrow> fromJson j = Some st \<Longrightarrow>
   validate_schema json_loads fromJson fs (Some (SStr p)) =
     ([Exists p, ReadText p], Inr (Some st)) \<and>
   validate_schema json_loads fromJson fs (Some (SPath p)) =
     ([Exists p, ReadText p], Inr (Some st))"
  by (simp add: schema_from_path_def)

text \<open>
  An instance with the document \<^verbatim>\<open>{"fields":[],"type":"struct"}\<close>: the decoded
  document is identified with its text, and a schema with the list of its field
  names, here none.
\<close>

theorem schema_file_deserialized_witness:
  \<open>[''/schemas/s.json'' \<mapsto> File ''{"fields":[],"type":"struct"}''] ''/schemas/s.json'' =
     Some (File ''{"fields":[],"type":"struct"}'') \<and>
   (\<lambda>t. if t = ''{"fields":[],"type":"struct"}'' then Some t else None)
       ''{"fields":[],"type":"struct"}'' = Some ''{"fields":[],"type":"struct"}'' \<and>
   (\<lambda>j :: string. Some ([] :: string list)) ''{"fields":[],"type":"struct"}'' = Some [] \<and>
   validate_schema (\<lambda>t. if t = ''{"fields":[],"type":"struct"}'' then Some t else None)
       (\<lambda>j :: string. Some ([] :: string list))
       [''/schemas/s.json'' \<mapsto> File ''{"fields":[],"type":"struct"}'']
       (Some (SPath ''/schemas/s.json'')) =
     ([Exists ''/schemas/s.json'', ReadText ''/schemas/s.json''], Inr (Some []))\<close>
  using schema_file_deserialized [of
      \<open>[''/schemas/s.json'' \<mapsto> File ''{"fields":[],"type":"struct"}'']\<close>
      \<open>''/schemas/s.json''\<close> \<open>''{"fields":[],"type":"struct"}''\<close>
      \<open>\<lambda>t. if t = ''{"fields":[],"type":"struct"}'' then Some t else None\<close>
      \<open>''{"fields":[],"type":"struct"}''\<close>
      \<open>\<lambda>j :: string. Some ([] :: string list)\<close> \<open>[]\<close>]
  by simp

text \<open>
  Claim C6: for \<^verbatim>\<open>None\<close> the validator returns \<^verbatim>\<open>None\<close>, and for a
  \<^verbatim>\<open>StructType\<close> it returns that object; in both cases no filesystem operation
  is performed, neither an existence check nor a read.
\<close>

theorem schema_without_filesystem:
  "validate_schema json_loads fromJson fs None = ([], Inr None) \<and>
   validate_schema json_loads fromJson fs (Some (SStruct st)) = ([], Inr (Some st))"
  by simp

section \<open>Properties of the options merger\<close>

lemma get_options_Some:
  "options self = Some d \<Longrightarrow>
   get_options self =
     Inr (d(''cloudFiles.format'' \<mapsto> format self,
            ''cloudFiles.schemaLocation'' \<mapsto> schema_location self),
          self\<lparr>options := Some (d(''cloudFiles.format'' \<mapsto> format self,
                                   ''cloudFiles.schemaLocation'' \<mapsto> schema_location self))\<rparr>)"
  by (simp add: get_options_def Let_def)

text \<open>
  The field admits \<^verbatim>\<open>None\<close>; then \<^verbatim>\<open>self.options.update\<close> raises and nothing
  is merged.
\<close>

lemma get_options_None:
  "options self = None \<Longrightarrow> get_options self = Inl (AttributeError ''update'')"
  by (simp add: get_options_def)

lemma AutoLoader_init_Inr:
  assumes "AutoLoader_init u json_loads fromJson fs args = (log, Inr self)"
  shows "validate_format u (format_arg args) = Inr (format self)"
    and "location self = location_arg args"
    and "schema_location self = schemaLocation_arg args"
    and "options self = (case options_arg args of Omitted \<Rightarrow> Some Map.empty | Given d \<Rightarrow> d)"
    and "output_df self = None"
  using assms
  by (auto simp: AutoLoader_init_def Let_def split: sum.splits prod.splits)

text \<open>
  Claim C3: for an instance constructed with a caller-supplied options dictionary
  \<open>d\<close>, whatever \<open>d\<close> holds under the two keys, the dictionary returned by
  \<^verbatim>\<open>get_options\<close> maps \<^verbatim>\<open>cloudFiles.format\<close> to the string that the format
  validator returned and \<^verbatim>\<open>cloudFiles.schemaLocation\<close> to the configured schema
  location.
\<close>

theorem get_options_mandatory_keys:
  assumes "AutoLoader_init u json_loads fromJson fs args = (log, Inr self)"
    and "options_arg args = Given (Some d)"
  shows "\<exists>m self' f. get_options self = Inr (m, self') \<and>
           validate_format u (format_arg args) = Inr f \<and>
           m ''cloudFiles.format'' = Some f \<and>
           m ''cloudFiles.schemaLocation'' = Some (schemaLocation_arg args)"
proof -
  have o: "options self = Some d"
    using AutoLoader_init_Inr(4) [OF assms(1)] assms(2) by simp
  show ?thesis
    using get_options_Some [OF o] AutoLoader_init_Inr(1,3) [OF assms(1)]
    by simp
qed

text \<open>
  An instance whose caller supplies other values under both keys: they are
  replaced.
\<close>

theorem get_options_mandatory_keys_witness:
  "AutoLoader_init (\<lambda>c. [c]) (\<lambda>t :: string. None :: unit option)
       (\<lambda>j :: unit. None :: unit option) Map.empty
     \<lparr>format_arg = FStr (codepoints ''Parquet''), location_arg = ''s3://bucket/in'',
      schemaLocation_arg = ''s3://bucket/schema'',
      options_arg = Given (Some [''cloudFiles.format'' \<mapsto> ''xml'',
                                 ''cloudFiles.schemaLocation'' \<mapsto> ''/tmp/elsewhere'']),
      schema_arg = Omitted\<rparr> =
     ([], Inr \<lparr>format = ''parquet'', location = ''s3://bucket/in'',
               schema_location = ''s3://bucket/schema'',
               options = Some [''cloudFiles.format'' \<mapsto> ''xml'',
                               ''cloudFiles.schemaLocation'' \<mapsto> ''/tmp/elsewhere''],
               schema = None, output_df = None\<rparr>) \<and>
   (\<exists>m self'.
      get_options \<lparr>format = ''parquet'', location = ''s3://bucket/in'',
                   schema_location = ''s3://bucket/schema'',
                   options = Some [''cloudFiles.format'' \<mapsto> ''xml'',
                                   ''cloudFiles.schemaLocation'' \<mapsto> ''/tmp/elsewhere''],
                   schema = None :: unit option, output_df = None\<rparr> = Inr (m, self') \<and>
      m ''cloudFiles.format'' = Some ''parquet'' \<and>
      m ''cloudFiles.schemaLocation'' = Some ''s3://bucket/schema'')"
proof -
  let ?d = "[''cloudFiles.format'' \<mapsto> ''xml'',
             ''cloudFiles.schemaLocation'' \<mapsto> ''/tmp/elsewhere'']"
  let ?args = "\<lparr>format_arg = FStr (codepoints ''Parquet''), location_arg = ''s3://bucket/in'',
      schemaLocation_arg = ''s3://bucket/schema'',
      options_arg = Given (Some ?d),
      schema_arg = Omitted :: unit schema_input option arg\<rparr>"
  let ?self = "\<lparr>format = ''parquet'', location = ''s3://bucket/in'',
               schema_location = ''s3://bucket/schema'',
               options = Some ?d, schema = None :: unit option, output_df = None\<rparr>"
  let ?jl = "\<lambda>t :: string. None :: unit option"
  let ?fj = "\<lambda>j :: unit. None :: unit option"
  have i: "AutoLoader_init (\<lambda>c. [c]) ?jl ?fj Map.empty ?args = ([], Inr ?self)"
    by (simp add: AutoLoader_init_def validate_format_Parquet del: validate_format.simps)
  have o: "options_arg ?args = Given (Some ?d)" by simp
  show ?thesis
    using get_options_mandatory_keys [OF i o] i
    by (simp add: validate_format_Parquet del: validate_format.simps)
qed

text \<open>
  Claim C9: the merge is made on the instance's own dictionary. Whenever
  \<^verbatim>\<open>get_options\<close> returns, the instance afterwards differs from the instance
  before only in its \<open>options\<close> field, which holds the returned dictionary: the
  stored dictionary updated under the two keys. It returns for every instance
  whose \<open>options\<close> field holds a dictionary.
\<close>

theorem get_options_in_place:
  "(options self = Some d \<longrightarrow> (\<exists>m self'. get_options self = Inr (m, self'))) \<and>
   (get_options self = Inr (m, self') \<longrightarrow>
      options self' = Some m \<and> self' = self\<lparr>options := Some m\<rparr> \<and>
      (\<exists>d0. options self = Some d0 \<and>
         m = d0 ++ [''cloudFiles.format'' \<mapsto> format self,
                    ''cloudFiles.schemaLocation'' \<mapsto> schema_location self]))"
proof (intro conjI impI)
  assume "options self = Some d"
  then show "\<exists>m self'. get_options self = Inr (m, self')"
    by (simp add: get_options_Some)
next
  assume r: "get_options self = Inr (m, self')"
  then obtain d0 where o: "options self = Some d0"
    by (cases "options self") (simp_all add: get_options_None)
  from r have m: "m = d0(''cloudFiles.format'' \<mapsto> format self,
                        ''cloudFiles.schemaLocation'' \<mapsto> schema_location self)"
    by (auto simp: get_options_Some [OF o])
  from r have s: "self' = self\<lparr>options := Some m\<rparr>"
    unfolding m by (auto simp: get_options_Some [OF o])
  show "options self' = Some m" using s by simp
  show "self' = self\<lparr>options := Some m\<rparr>" by (rule s)
  show "\<exists>d0. options self = Some d0 \<and>
         m = d0 ++ [''cloudFiles.format'' \<mapsto> format self,
                    ''cloudFiles.schemaLocation'' \<mapsto> schema_location self]"
    using o m by simp
qed

theorem get_options_in_place_witness:
  "options \<lparr>format = ''json'', location = ''/data/in'', schema_location = ''/data/schema'',
            options = Some [''multiLine'' \<mapsto> ''true''],
            schema = None :: unit option, output_df = None\<rparr> =
     Some [''multiLine'' \<mapsto> ''true''] \<and>
   get_options \<lparr>format = ''json'', location = ''/data/in'', schema_location = ''/data/schema'',
                options = Some [''multiLine'' \<mapsto> ''true''],
                schema = None :: unit option, output_df = None\<rparr> =
     Inr ([''multiLine'' \<mapsto> ''true'', ''cloudFiles.format'' \<mapsto> ''json'',
           ''cloudFiles.schemaLocation'' \<mapsto> ''/data/schema''],
          \<lparr>format = ''json'', location = ''/data/in'', schema_location = ''/data/schema'',
           options = Some [''multiLine'' \<mapsto> ''true'', ''cloudFiles.format'' \<mapsto> ''json'',
                           ''cloudFiles.schemaLocation'' \<mapsto> ''/data/schema''],
           schema = None, output_df = None\<rparr>) \<and>
   options \<lparr>format = ''json'', location = ''/data/in'', schema_location = ''/data/schema'',
            options = Some [''multiLine'' \<mapsto> ''true'', ''cloudFiles.format'' \<mapsto> ''json'',
                            ''cloudFiles.schemaLocation'' \<mapsto> ''/data/schema''],
            schema = None :: unit option, output_df = None\<rparr> =
     Some [''multiLine'' \<mapsto> ''true'', ''cloudFiles.format'' \<mapsto> ''json'',
           ''cloudFiles.schemaLocation'' \<mapsto> ''/data/schema'']"
proof -
  let ?self = "\<lparr>format = ''json'', location = ''/data/in'', schema_location = ''/data/schema'',
                options = Some [''multiLine'' \<mapsto> ''true''],
                schema = None :: unit option, output_df = None\<rparr>"
  let ?m = "[''multiLine'' \<mapsto> ''true'', ''cloudFiles.format'' \<mapsto> ''json'',
             ''cloudFiles.schemaLocation'' \<mapsto> ''/data/schema'']"
  have o: "options ?self = Some [''multiLine'' \<mapsto> ''true'']" by simp
  have g: "get_options ?self = Inr (?m, ?self\<lparr>options := Some ?m\<rparr>)"
    by (simp add: get_options_def Let_def)
  show ?thesis
    using get_options_in_place [of ?self "[''multiLine'' \<mapsto> ''true'']" ?m
        "?self\<lparr>options := Some ?m\<rparr>"] o g
    by simp
qed

text \<open>
  Claim C10: for an instance whose options dictionary is \<open>d\<close>, every key other
  than \<^verbatim>\<open>cloudFiles.format\<close> and \<^verbatim>\<open>cloudFiles.schemaLocation\<close> is mapped by the
  returned dictionary to what \<open>d\<close> maps it to, absent keys staying absent.
\<close>

theorem get_options_other_keys:
  "options self = Some d \<Longrightarrow> k \<noteq> ''cloudFiles.format'' \<Longrightarrow>
   k \<noteq> ''cloudFiles.schemaLocation'' \<Longrightarrow>
   \<exists>m self'. get_options self = Inr (m, self') \<and> m k = d k"
  by (simp add: get_options_Some)

theorem get_options_other_keys_witness:
  "options \<lparr>format = ''orc'', location = ''/data/in'', schema_location = ''/data/schema'',
            options = Some [''multiLine'' \<mapsto> ''true'', ''cloudFiles.format'' \<mapsto> ''avro''],
            schema = None :: unit option, output_df = None\<rparr> =
     Some [''multiLine'' \<mapsto> ''true'', ''cloudFiles.format'' \<mapsto> ''avro''] \<and>
   ''multiLine'' \<noteq> ''cloudFiles.format'' \<and> ''multiLine'' \<noteq> ''cloudFiles.schemaLocation'' \<and>
   (\<exists>m self'.
      get_options \<lparr>format = ''orc'', location = ''/data/in'', schema_location = ''/data/schema'',
                   options = Some [''multiLine'' \<mapsto> ''true'', ''cloudFiles.format'' \<mapsto> ''avro''],
                   schema = None :: unit option, output_df = None\<rparr> = Inr (m, self') \<and>
      m ''multiLine'' = Some ''true'')"
  using get_options_other_keys [of
      "\<lparr>format = ''orc'', location = ''/data/in'', schema_location = ''/data/schema'',
        options = Some [''multiLine'' \<mapsto> ''true'', ''cloudFiles.format'' \<mapsto> ''avro''],
        schema = None :: unit option, output_df = None\<rparr>"
      "[''multiLine'' \<mapsto> ''true'', ''cloudFiles.format'' \<mapsto> ''avro'']" "''multiLine''"]
  by simp

section \<open>Properties of the execution step\<close>

text \<open>
  When the \<open>options\<close> field is \<^verbatim>\<open>None\<close>, the request is begun, the merge raises,
  and neither \<^verbatim>\<open>options\<close> nor \<^verbatim>\<open>load\<close> is called.
\<close>

lemma execute_options_None:
  "options self = None \<Longrightarrow>
   execute self =
     ([ReadStreamFormat ''cloudFiles''] @
      (case schema self of None \<Rightarrow> [] | Some st \<Rightarrow> [ReaderSchema st]),
      Inl (AttributeError ''update''))"
  by (simp add: execute_def reader_def get_options_None Let_def split: option.splits)

text \<open>
  Claim C7: the configuration \<^verbatim>\<open>format="CSV"\<close>, \<^verbatim>\<open>location="s3://bucket/in"\<close>,
  \<^verbatim>\<open>schema_location="s3://bucket/schema"\<close>, \<^verbatim>\<open>options={"multiLine": "true"}\<close>,
  no schema. Construction succeeds with format \<^verbatim>\<open>csv\<close>; the merged options are
  exactly \<^verbatim>\<open>multiLine\<close>, \<^verbatim>\<open>cloudFiles.format\<close> and \<^verbatim>\<open>cloudFiles.schemaLocation\<close>
  with the values \<^verbatim>\<open>true\<close>, \<^verbatim>\<open>csv\<close> and \<^verbatim>\<open>s3://bucket/schema\<close>; and
  \<^verbatim>\<open>execute\<close> calls \<^verbatim>\<open>format("cloudFiles")\<close>, then \<^verbatim>\<open>options\<close> with the merged
  dictionary, then \<^verbatim>\<open>load("s3://bucket/in")\<close>, and never \<^verbatim>\<open>schema\<close>.
\<close>

theorem csv_scenario:
  "AutoLoader_init u json_loads fromJson fs
     \<lparr>format_arg = FStr (codepoints ''CSV''), location_arg = ''s3://bucket/in'',
      schemaLocation_arg = ''s3://bucket/schema'',
      options_arg = Given (Some [''multiLine'' \<mapsto> ''true'']),
      schema_arg = Omitted\<rparr> =
     ([], Inr \<lparr>format = ''csv'', location = ''s3://bucket/in'',
               schema_location = ''s3://bucket/schema'',
               options = Some [''multiLine'' \<mapsto> ''true''],
               schema = None, output_df = None\<rparr>) \<and>
   get_options \<lparr>format = ''csv'', location = ''s3://bucket/in'',
                schema_location = ''s3://bucket/schema'',
                options = Some [''multiLine'' \<mapsto> ''true''],
                schema = None, output_df = None\<rparr> =
     Inr ([''multiLine'' \<mapsto> ''true'', ''cloudFiles.format'' \<mapsto> ''csv'',
           ''cloudFiles.schemaLocation'' \<mapsto> ''s3://bucket/schema''],
          \<lparr>format = ''csv'', location = ''s3://bucket/in'',
           schema_location = ''s3://bucket/schema'',
           options = Some [''multiLine'' \<mapsto> ''true'', ''cloudFiles.format'' \<mapsto> ''csv'',
                           ''cloudFiles.schemaLocation'' \<mapsto> ''s3://bucket/schema''],
           schema = None, output_df = None\<rparr>) \<and>
   fst (execute \<lparr>format = ''csv'', location = ''s3://bucket/in'',
                 schema_location = ''s3://bucket/schema'',
                 options = Some [''multiLine'' \<mapsto> ''true''],
                 schema = None, output_df = None\<rparr>) =
     [ReadStreamFormat ''cloudFiles'',
      ReaderOptions [''multiLine'' \<mapsto> ''true'', ''cloudFiles.format'' \<mapsto> ''csv'',
                     ''cloudFiles.schemaLocation'' \<mapsto> ''s3://bucket/schema''],
      ReaderLoad ''s3://bucket/in'']"
proof (intro conjI)
  show "AutoLoader_init u json_loads fromJson fs
     \<lparr>format_arg = FStr (codepoints ''CSV''), location_arg = ''s3://bucket/in'',
      schemaLocation_arg = ''s3://bucket/schema'',
      options_arg = Given (Some [''multiLine'' \<mapsto> ''true'']),
      schema_arg = Omitted\<rparr> =
     ([], Inr \<lparr>format = ''csv'', location = ''s3://bucket/in'',
               schema_location = ''s3://bucket/schema'',
               options = Some [''multiLine'' \<mapsto> ''true''],
               schema = None, output_df = None\<rparr>)"
    by (simp add: AutoLoader_init_def validate_format_CSV del: validate_format.simps)
next
  show "get_options \<lparr>format = ''csv'', location = ''s3://bucket/in'',
                schema_location = ''s3://bucket/schema'',
                options = Some [''multiLine'' \<mapsto> ''true''],
                schema = None, output_df = None\<rparr> =
     Inr ([''multiLine'' \<mapsto> ''true'', ''cloudFiles.format'' \<mapsto> ''csv'',
           ''cloudFiles.schemaLocation'' \<mapsto> ''s3://bucket/schema''],
          \<lparr>format = ''csv'', location = ''s3://bucket/in'',
           schema_location = ''s3://bucket/schema'',
           options = Some [''multiLine'' \<mapsto> ''true'', ''cloudFiles.format'' \<mapsto> ''csv'',
                           ''cloudFiles.schemaLocation'' \<mapsto> ''s3://bucket/schema''],
           schema = None, output_df = None\<rparr>)"
    by (simp add: get_options_def Let_def)
next
  show "fst (execute \<lparr>format = ''csv'', location = ''s3://bucket/in'',
                 schema_location = ''s3://bucket/schema'',
                 options = Some [''multiLine'' \<mapsto> ''true''],
                 schema = None, output_df = None\<rparr>) =
     [ReadStreamFormat ''cloudFiles'',
      ReaderOptions [''multiLine'' \<mapsto> ''true'', ''cloudFiles.format'' \<mapsto> ''csv'',
                     ''cloudFiles.schemaLocation'' \<mapsto> ''s3://bucket/schema''],
      ReaderLoad ''s3://bucket/in'']"
    by (simp add: execute_def reader_def get_options_def Let_def)
qed

text \<open>
  Claim C8, as the code has it. For an instance whose options field holds a
  dictionary \<open>d\<close>, \<^verbatim>\<open>execute\<close> makes these calls on the engine, in this order:
  \<^verbatim>\<open>format("cloudFiles")\<close>; then \<^verbatim>\<open>schema\<close> with the resolved schema when there
  is one; then \<^verbatim>\<open>options\<close> with the merged dictionary; then \<^verbatim>\<open>load\<close> with the
  configured location, whose handle is stored as the output. For every instance
  without a schema, whatever its options field holds, no \<^verbatim>\<open>schema\<close> call is
  made at all.
\<close>

theorem execute_call_order:
  "(options self = Some d \<longrightarrow>
      fst (execute self) =
        [ReadStreamFormat ''cloudFiles''] @
        (case schema self of None \<Rightarrow> [] | Some st \<Rightarrow> [ReaderSchema st]) @
        [ReaderOptions (d ++ [''cloudFiles.format'' \<mapsto> format self,
                             ''cloudFiles.schemaLocation'' \<mapsto> schema_location self]),
         ReaderLoad (location self)] \<and>
      (\<exists>self'. snd (execute self) = Inr self' \<and>
         output_df self' = Some (fst (execute self)))) \<and>
   (schema self = None \<longrightarrow> (\<forall>st. ReaderSchema st \<notin> set (fst (execute self))))"
proof -
  have a: "options self = Some d \<longrightarrow>
      fst (execute self) =
        [ReadStreamFormat ''cloudFiles''] @
        (case schema self of None \<Rightarrow> [] | Some st \<Rightarrow> [ReaderSchema st]) @
        [ReaderOptions (d ++ [''cloudFiles.format'' \<mapsto> format self,
                             ''cloudFiles.schemaLocation'' \<mapsto> schema_location self]),
         ReaderLoad (location self)] \<and>
      (\<exists>self'. snd (execute self) = Inr self' \<and>
         output_df self' = Some (fst (execute self)))"
    by (simp add: execute_def reader_def get_options_Some Let_def split: option.splits)
  have b: "schema self = None \<longrightarrow> (\<forall>st. ReaderSchema st \<notin> set (fst (execute self)))"
  proof (rule impI)
    assume n: "schema self = None"
    show "\<forall>st. ReaderSchema st \<notin> set (fst (execute self))"
    proof (cases "options self")
      case None
      then show ?thesis
        using n by (simp add: execute_options_None)
    next
      case (Some d0)
      then show ?thesis
        using n by (simp add: execute_def reader_def get_options_Some Let_def)
    qed
  qed
  show ?thesis by (rule conjI [OF a b])
qed

text \<open>Two instances, one with a schema (no fields) and one without.\<close>

theorem execute_call_order_witness:
  "options \<lparr>format = ''json'', location = ''/data/in'', schema_location = ''/data/schema'',
            options = Some Map.empty, schema = Some ([] :: string list), output_df = None\<rparr> =
     Some Map.empty \<and>
   fst (execute \<lparr>format = ''json'', location = ''/data/in'', schema_location = ''/data/schema'',
                 options = Some Map.empty, schema = Some ([] :: string list),
                 output_df = None\<rparr>) =
     [ReadStreamFormat ''cloudFiles'', ReaderSchema [],
      ReaderOptions [''cloudFiles.format'' \<mapsto> ''json'',
                     ''cloudFiles.schemaLocation'' \<mapsto> ''/data/schema''],
      ReaderLoad ''/data/in''] \<and>
   schema \<lparr>format = ''json'', location = ''/data/in'', schema_location = ''/data/schema'',
           options = Some Map.empty, schema = None :: string list option,
           output_df = None\<rparr> = None \<and>
   fst (execute \<lparr>format = ''json'', location = ''/data/in'', schema_location = ''/data/schema'',
                 options = Some Map.empty, schema = None :: string list option,
                 output_df = None\<rparr>) =
     [ReadStreamFormat ''cloudFiles'',
      ReaderOptions [''cloudFiles.format'' \<mapsto> ''json'',
                     ''cloudFiles.schemaLocation'' \<mapsto> ''/data/schema''],
      ReaderLoad ''/data/in''] \<and>
   (\<forall>st. ReaderSchema st \<notin>
      set (fst (execute \<lparr>format = ''json'', location = ''/data/in'',
                         schema_location = ''/data/schema'', options = Some Map.empty,
                         schema = None :: string list option, output_df = None\<rparr>)))"
  using execute_call_order [of
      "\<lparr>format = ''json'', location = ''/data/in'', schema_location = ''/data/schema'',
        options = Some Map.empty, schema = Some ([] :: string list), output_df = None\<rparr>"
      Map.empty]
    execute_call_order [of
      "\<lparr>format = ''json'', location = ''/data/in'', schema_location = ''/data/schema'',
        options = Some Map.empty, schema = None :: string list option, output_df = None\<rparr>"
      Map.empty]
  by simp

text \<open>
  An instance with a schema whose options field is \<^verbatim>\<open>None\<close>, which the field's
  type admits and construction accepts: \<^verbatim>\<open>execute\<close> calls
  \<^verbatim>\<open>format("cloudFiles")\<close> and \<^verbatim>\<open>schema\<close>, then the merge raises
  \<^verbatim>\<open>AttributeError\<close>; \<^verbatim>\<open>options\<close> and \<^verbatim>\<open>load\<close> are never called.
\<close>

theorem execute_options_None_counterexample:
  "AutoLoader_init (\<lambda>c. [c]) (\<lambda>t :: string. None :: unit option)
       (\<lambda>j :: unit. None :: string list option) Map.empty
     \<lparr>format_arg = FEnum JSON, location_arg = ''/data/in'',
      schemaLocation_arg = ''/data/schema'', options_arg = Given None,
      schema_arg = Given (Some (SStruct []))\<rparr> =
     ([], Inr \<lparr>format = ''json'', location = ''/data/in'', schema_location = ''/data/schema'',
               options = None, schema = Some [], output_df = None\<rparr>) \<and>
   execute \<lparr>format = ''json'', location = ''/data/in'', schema_location = ''/data/schema'',
            options = None, schema = Some ([] :: string list), output_df = None\<rparr> =
     ([ReadStreamFormat ''cloudFiles'', ReaderSchema []], Inl (AttributeError ''update''))"
  by (simp add: AutoLoader_init_def execute_def reader_def get_options_def)

end
